theory Spec2Isabelle
  imports
    Complex_Main
    "HOL-Library.Char_ord"
    "HOL-Library.List_Lexorder"
    "HOL-Library.Product_Lexorder"
    "HOL-Library.Multiset"
    "HOL-Library.Log_Nat"
begin

section \<open>The cadeautjes backend: gift purchase, inventory and transfer\<close>

text \<open>
  A shallow embedding of \<^verbatim>\<open>src/routes/gifts.ts\<close> over the tables that
  \<^verbatim>\<open>src/models/database.ts\<close> creates. The database is a record of its tables and
  every route is a function from the database and the request to the response and the
  database it leaves behind.

  Conventions of the embedding:
  \<^item> identifiers of users and gift types are \<open>int\<close> (INTEGER columns), quantities are
    \<open>int\<close>, texts are \<open>string\<close>, a nullable column or an optional request field is an
    \<open>option\<close>;
  \<^item> a finite JavaScript number is the rational it denotes, and JavaScript's arithmetic
    is the exact operation followed by the rounding \<open>fl\<close> to binary64; the embedding
    covers requests whose quantities are integer-valued numbers and writes them as
    \<open>int\<close>;
  \<^item> \<^verbatim>\<open>uuidv4()\<close> is an argument of the route that calls it;
  \<^item> an exception raised by the database or the runtime inside a route's \<^verbatim>\<open>try\<close>
    block becomes the response 500, with the database as it was when the exception was
    raised; the only exceptions modelled are violations of PRIMARY KEY and UNIQUE
    constraints and the property access on a missing row;
  \<^item> columns that only the database fills and no statement of the routes reads (row ids
    of \<^verbatim>\<open>user_gifts\<close>, creation timestamps, the status of a purchase) are left out;
  \<^item> a route runs from its request to its response without another request in between:
    the embedding is sequential.
\<close>

subsection \<open>Tables\<close>

text \<open>A row of \<^verbatim>\<open>gift_types\<close>; the primary key \<^verbatim>\<open>id\<close> is the key of the table's map.
  A price is the number as stored and read back, a binary64 value.\<close>

record gift_type =
  gt_name :: string
  gt_emoji :: string
  gt_description :: "string option"
  gt_price :: rat
  gt_category :: string
  gt_active :: bool

text \<open>A row of \<^verbatim>\<open>user_gifts\<close>. The table has no UNIQUE constraint on the pair
  \<^verbatim>\<open>(user_id, gift_type_id)\<close>, so it is a list of rows.\<close>

record user_gift =
  ug_user_id :: int
  ug_gift_type_id :: int
  ug_quantity :: int

text \<open>A row of \<^verbatim>\<open>transactions\<close>. The column \<^verbatim>\<open>status\<close> has the default
  \<^verbatim>\<open>'sent'\<close>, which is the state the specification calls issued.\<close>

record transaction_row =
  t_id :: string
  t_sender_id :: int
  t_receiver_email :: "string option"
  t_gift_type_id :: int
  t_status :: string
  t_qr_code :: string
  t_message :: "string option"
  t_redeemed_at :: "nat option"
  t_partner_id :: "int option"

text \<open>A line item of the purchase request's body.\<close>

record item =
  giftTypeId :: int
  quantity :: int

text \<open>A row of \<^verbatim>\<open>purchases\<close>; \<^verbatim>\<open>items\<close> holds the request's item list
  (the source stores its JSON text).\<close>

record purchase_row =
  p_id :: string
  p_user_id :: int
  p_items :: "item list"
  p_total_amount :: rat

record database =
  gift_types :: "int \<rightharpoonup> gift_type"
  user_gifts :: "user_gift list"
  transactions :: "transaction_row list"
  purchases :: "purchase_row list"

subsection \<open>The database after start-up\<close>

definition giftTypes :: "gift_type list" where
  "giftTypes =
    [\<lparr>gt_name = ''Biertje'', gt_emoji = [CHR 0xF0, CHR 0x9F, CHR 0x8D, CHR 0xBA],
      gt_description = Some (''Een lekker biertje bij deelnemende caf'' @ [CHR 0xC3, CHR 0xA9] @ ''s''),
      gt_price = 7 / 2, gt_category = ''drinks'', gt_active = True\<rparr>,
     \<lparr>gt_name = ''Wijntje'', gt_emoji = [CHR 0xF0, CHR 0x9F, CHR 0x8D, CHR 0xB7],
      gt_description = Some ''Een glas wijn bij restaurants'',
      gt_price = 9 / 2, gt_category = ''drinks'', gt_active = True\<rparr>,
     \<lparr>gt_name = ''Koffie'', gt_emoji = [CHR 0xE2, CHR 0x98, CHR 0x95],
      gt_description = Some ''Verse koffie bij coffeeshops'',
      gt_price = 11 / 4, gt_category = ''drinks'', gt_active = True\<rparr>,
     \<lparr>gt_name = ''Cocktail'', gt_emoji = [CHR 0xF0, CHR 0x9F, CHR 0x8D, CHR 0xB8],
      gt_description = Some ''Een cocktail naar keuze'',
      gt_price = 15 / 2, gt_category = ''drinks'', gt_active = True\<rparr>,
     \<lparr>gt_name = ''Pizza Slice'', gt_emoji = [CHR 0xEF, CHR 0xBF, CHR 0xBD, CHR 0xEF, CHR 0xBF, CHR 0xBD],
      gt_description = Some ''Een punt pizza bij pizzeria'',
      gt_price = 13 / 4, gt_category = ''food'', gt_active = True\<rparr>,
     \<lparr>gt_name = ''Taartje'', gt_emoji = [CHR 0xF0, CHR 0x9F, CHR 0x8D, CHR 0xB0],
      gt_description = Some ''Een stuk taart bij bakkerij'',
      gt_price = 15 / 4, gt_category = ''food'', gt_active = True\<rparr>,
     \<lparr>gt_name = ''Lunch'', gt_emoji = [CHR 0xF0, CHR 0x9F, CHR 0xA5, CHR 0xAA],
      gt_description = Some ''Lunch deal bij restaurants'',
      gt_price = 17 / 2, gt_category = ''food'', gt_active = True\<rparr>,
     \<lparr>gt_name = ''IJsje'', gt_emoji = [CHR 0xF0, CHR 0x9F, CHR 0x8D, CHR 0xA8],
      gt_description = Some ''Een bolletje ijs naar keuze'',
      gt_price = 9 / 4, gt_category = ''food'', gt_active = True\<rparr>,
     \<lparr>gt_name = ''Bioscoopkaartje'', gt_emoji = [CHR 0xF0, CHR 0x9F, CHR 0x8E, CHR 0xAC],
      gt_description = Some ''Ticket voor voorstelling'',
      gt_price = 25 / 2, gt_category = ''entertainment'', gt_active = True\<rparr>,
     \<lparr>gt_name = ''Minigolf'', gt_emoji = [CHR 0xE2, CHR 0x9B, CHR 0xB3],
      gt_description = Some ''Een rondje minigolf'',
      gt_price = 7, gt_category = ''entertainment'', gt_active = True\<rparr>,
     \<lparr>gt_name = ''Bowling Game'', gt_emoji = [CHR 0xF0, CHR 0x9F, CHR 0x8E, CHR 0xB3],
      gt_description = Some ''Een spelletje bowlen'',
      gt_price = 11 / 2, gt_category = ''entertainment'', gt_active = True\<rparr>,
     \<lparr>gt_name = ''Boodschappen'', gt_emoji = [CHR 0xF0, CHR 0x9F, CHR 0x9B, CHR 0x92],
      gt_description = Some ''Boodschappen tegoed'',
      gt_price = 10, gt_category = ''lifestyle'', gt_active = True\<rparr>,
     \<lparr>gt_name = ''Bloemen'', gt_emoji = [CHR 0xF0, CHR 0x9F, CHR 0x92, CHR 0x90],
      gt_description = Some ''Een mooi boeket bloemen'',
      gt_price = 12, gt_category = ''lifestyle'', gt_active = True\<rparr>]"

text \<open>\<^verbatim>\<open>insertSampleData\<close> on the empty table: AUTOINCREMENT numbers the rows from 1 in
  the order of insertion, and \<^verbatim>\<open>active\<close> takes its default 1.\<close>

definition insertSampleData :: "int \<rightharpoonup> gift_type" where
  "insertSampleData = map_of (zip [1, 2, 3, 4, 5, 6, 7, 8, 9, 10, 11, 12, 13] giftTypes)"

definition initial_database :: database where
  "initial_database =
    \<lparr>gift_types = insertSampleData, user_gifts = [], transactions = [], purchases = []\<rparr>"

subsection \<open>Responses\<close>

datatype error =
    NotAuthenticated
  | ItemsRequired
  | InvalidGiftType int
  | GiftTypeIdRequired
  | GiftNotAvailable
  | InternalServerError

fun status_code :: "error \<Rightarrow> nat" where
  "status_code NotAuthenticated = 401"
| "status_code ItemsRequired = 400"
| "status_code (InvalidGiftType g) = 400"
| "status_code GiftTypeIdRequired = 400"
| "status_code GiftNotAvailable = 400"
| "status_code InternalServerError = 500"

text \<open>The success bodies: of a purchase \<open>purchaseId\<close>, \<open>totalAmount\<close>, \<open>items\<close>; of a
  send \<open>transactionId\<close>, the gift's name, emoji and description, the text the QR image
  encodes, and \<open>claimUrl\<close>.\<close>

datatype response =
    PurchaseSuccessful string rat "item list"
  | GiftSent string string string "string option" string string
  | Failed error

subsection \<open>JavaScript numbers\<close>

text \<open>A JavaScript number is an IEEE 754 binary64 value, and better-sqlite3 binds it to a
  statement as a REAL. A finite number is modelled by the rational it denotes. Infinity,
  NaN and the sign of zero are not modelled: \<open>fl\<close> below is the rounding of results whose
  magnitude stays under \<open>2 ^ 1024\<close>.\<close>

text \<open>The binary exponent of a positive rational: the \<open>e\<close> with
  \<open>2 ^ e \<le> x < 2 ^ (e + 1)\<close>.\<close>

definition exponent :: "rat \<Rightarrow> int" where
  "exponent x = (if 1 \<le> x then bitlen \<lfloor>x\<rfloor> - 1 else - bitlen (\<lceil>1 / x\<rceil> - 1))"

definition round_half_even :: "rat \<Rightarrow> int" where
  "round_half_even y =
    (let f = \<lfloor>y\<rfloor>; d = y - of_int f
     in if d < 1 / 2 then f else if 1 / 2 < d then f + 1 else if even f then f else f + 1)"

text \<open>Rounding to the nearest binary64 value, ties to even: 53 significant bits, and
  below \<open>2 ^ - 1022\<close> the fixed spacing \<open>2 ^ - 1074\<close> of the subnormal numbers.\<close>

definition fl :: "rat \<Rightarrow> rat" where
  "fl x =
    (if x = 0 then 0
     else let e = max (exponent \<bar>x\<bar>) (- 1022); u = 2 powi (e - 52)
          in of_int (round_half_even (x / u)) * u)"

text \<open>The rationals that are finite binary64 values.\<close>

definition binary64 :: "rat \<Rightarrow> bool" where
  "binary64 x = (fl x = x \<and> \<bar>x\<bar> < 2 ^ 1024)"

text \<open>The JavaScript number of an integer-valued quantity: the integer itself whenever
  it is a binary64 value, as every quantity that a parsed request carries is. (An
  \<open>int\<close> that is no binary64 value stands for no such quantity; it is read as the
  nearest number, so that the arithmetic below stays within binary64.)\<close>

definition js_number :: "int \<Rightarrow> rat" where
  "js_number k = fl (of_int k)"

text \<open>JavaScript's \<^verbatim>\<open>*\<close> and \<^verbatim>\<open>+\<close> on numbers.\<close>

definition js_times :: "rat \<Rightarrow> rat \<Rightarrow> rat" where
  "js_times a b = fl (a * b)"

definition js_plus :: "rat \<Rightarrow> rat \<Rightarrow> rat" where
  "js_plus a b = fl (a + b)"

text \<open>A REAL stored in the column \<^verbatim>\<open>quantity INTEGER\<close>: the column's affinity turns an
  integral REAL into the INTEGER of the same value. (The numbers stored here come from
  integer literals and integer columns and are integral.)\<close>

definition sql_integer :: "rat \<Rightarrow> int" where
  "sql_integer d = \<lfloor>d\<rfloor>"

text \<open>SQL's \<^verbatim>\<open>quantity + ?\<close> for an INTEGER \<open>q\<close> and a REAL parameter \<open>d\<close>: the integer is
  converted to binary64 and the sum is computed in binary64.\<close>

definition sql_plus_real :: "int \<Rightarrow> rat \<Rightarrow> int" where
  "sql_plus_real q d = sql_integer (fl (fl (of_int q) + d))"

subsection \<open>POST /purchase\<close>

definition active_gift_type :: "database \<Rightarrow> int \<Rightarrow> gift_type option" where
  "active_gift_type db g =
    (case gift_types db g of
       None \<Rightarrow> None
     | Some giftType \<Rightarrow> if gt_active giftType then Some giftType else None)"

definition owns :: "int \<Rightarrow> int \<Rightarrow> user_gift \<Rightarrow> bool" where
  "owns userId g r = (ug_user_id r = userId \<and> ug_gift_type_id r = g)"

text \<open>\<^verbatim>\<open>UPDATE user_gifts SET quantity = f(quantity) WHERE user_id = ? AND gift_type_id = ?\<close>:
  every row of the pair is updated.\<close>

definition update_quantity ::
  "(int \<Rightarrow> int) \<Rightarrow> int \<Rightarrow> int \<Rightarrow> user_gift list \<Rightarrow> user_gift list" where
  "update_quantity f userId g rows =
    map (\<lambda>r. if owns userId g r then r\<lparr>ug_quantity := f (ug_quantity r)\<rparr> else r) rows"

definition add_to_inventory :: "database \<Rightarrow> int \<Rightarrow> item \<Rightarrow> database" where
  "add_to_inventory db userId it =
    (case find (owns userId (giftTypeId it)) (user_gifts db) of
       Some existingInventory \<Rightarrow>
         db\<lparr>user_gifts :=
              update_quantity (\<lambda>q. sql_plus_real q (js_number (quantity it)))
                userId (giftTypeId it) (user_gifts db)\<rparr>
     | None \<Rightarrow>
         db\<lparr>user_gifts := user_gifts db @
              [\<lparr>ug_user_id = userId, ug_gift_type_id = giftTypeId it,
                ug_quantity = sql_integer (js_number (quantity it))\<rparr>]\<rparr>)"

text \<open>The loop over the items, with the running \<open>totalAmount\<close>. An item whose gift type
  is missing or inactive ends the request with status 400; the database keeps what the
  items before it wrote.\<close>

fun purchase_items ::
  "database \<Rightarrow> int \<Rightarrow> item list \<Rightarrow> rat \<Rightarrow> (error \<times> database) + (rat \<times> database)" where
  "purchase_items db userId [] totalAmount = Inr (totalAmount, db)"
| "purchase_items db userId (it # rest) totalAmount =
    (case active_gift_type db (giftTypeId it) of
       None \<Rightarrow> Inl (InvalidGiftType (giftTypeId it), db)
     | Some giftType \<Rightarrow>
         purchase_items (add_to_inventory db userId it) userId rest
           (js_plus totalAmount (js_times (gt_price giftType) (js_number (quantity it)))))"

definition purchase ::
  "database \<Rightarrow> int option \<Rightarrow> item list option \<Rightarrow> string \<Rightarrow> response \<times> database" where
  "purchase db user body_items purchaseId =
    (case user of
       None \<Rightarrow> (Failed NotAuthenticated, db)
     | Some userId \<Rightarrow>
        (case body_items of
           None \<Rightarrow> (Failed ItemsRequired, db)
         | Some items \<Rightarrow>
            if items = [] then (Failed ItemsRequired, db)
            else
              (case purchase_items db userId items 0 of
                 Inl (e, db') \<Rightarrow> (Failed e, db')
               | Inr (totalAmount, db') \<Rightarrow>
                   if purchaseId \<in> set (map p_id (purchases db'))
                   then (Failed InternalServerError, db')
                   else
                     (PurchaseSuccessful purchaseId totalAmount items,
                      db'\<lparr>purchases := purchases db' @
                        [\<lparr>p_id = purchaseId, p_user_id = userId, p_items = items,
                          p_total_amount = totalAmount\<rparr>]\<rparr>))))"

subsection \<open>POST /send\<close>

definition qrCodeData :: "string \<Rightarrow> string" where
  "qrCodeData transactionId = ''CADEAUTJE-'' @ transactionId"

definition claimUrl :: "string \<Rightarrow> string" where
  "claimUrl transactionId = ''https://cadeautjes.app/claim/'' @ transactionId"

definition new_transaction ::
  "string \<Rightarrow> int \<Rightarrow> string option \<Rightarrow> int \<Rightarrow> string option \<Rightarrow> transaction_row" where
  "new_transaction transactionId userId receiverEmail g message =
    \<lparr>t_id = transactionId, t_sender_id = userId, t_receiver_email = receiverEmail,
     t_gift_type_id = g, t_status = ''sent'', t_qr_code = qrCodeData transactionId,
     t_message = message, t_redeemed_at = None, t_partner_id = None\<rparr>"

text \<open>The request's \<open>giftTypeId\<close> is refused when it is falsy: absent or 0. The INSERT
  into \<^verbatim>\<open>transactions\<close> raises when the id or the QR text is already in the table;
  reading \<^verbatim>\<open>giftType.name\<close> raises when the gift type has no row, after both
  writes.\<close>

definition send ::
  "database \<Rightarrow> int option \<Rightarrow> int option \<Rightarrow> string option \<Rightarrow> string option \<Rightarrow> string
    \<Rightarrow> response \<times> database" where
  "send db user body_giftTypeId receiverEmail message transactionId =
    (case user of
       None \<Rightarrow> (Failed NotAuthenticated, db)
     | Some userId \<Rightarrow>
        (case body_giftTypeId of
           None \<Rightarrow> (Failed GiftTypeIdRequired, db)
         | Some g \<Rightarrow>
            if g = 0 then (Failed GiftTypeIdRequired, db)
            else
              (case find (\<lambda>r. owns userId g r \<and> 0 < ug_quantity r) (user_gifts db) of
                 None \<Rightarrow> (Failed GiftNotAvailable, db)
               | Some userGift \<Rightarrow>
                   if transactionId \<in> set (map t_id (transactions db))
                      \<or> qrCodeData transactionId \<in> set (map t_qr_code (transactions db))
                   then (Failed InternalServerError, db)
                   else
                     (let db' = db\<lparr>transactions := transactions db @
                                      [new_transaction transactionId userId receiverEmail g message],
                                    user_gifts := update_quantity (\<lambda>q. q - 1) userId g (user_gifts db)\<rparr>
                      in case gift_types db g of
                           None \<Rightarrow> (Failed InternalServerError, db')
                         | Some giftType \<Rightarrow>
                             (GiftSent transactionId (gt_name giftType) (gt_emoji giftType)
                                (gt_description giftType) (qrCodeData transactionId)
                                (claimUrl transactionId),
                              db')))))"

subsection \<open>GET /inventory and the inventory of POST /sync\<close>

text \<open>The rows the two SELECT statements return.\<close>

record inventory_row =
  inv_quantity :: int
  inv_gift_type_id :: int
  inv_name :: string
  inv_emoji :: string
  inv_description :: "string option"
  inv_price :: rat
  inv_category :: string

record sync_row =
  sync_id :: int
  sync_name :: string
  sync_emoji :: string
  sync_category :: string
  sync_quantity :: int

text \<open>\<^verbatim>\<open>FROM user_gifts ug JOIN gift_types gt ON ug.gift_type_id = gt.id
  WHERE ug.user_id = ? AND ug.quantity > 0\<close>, in the order of the rows of
  \<^verbatim>\<open>user_gifts\<close>.\<close>

definition inventory_join :: "database \<Rightarrow> int \<Rightarrow> (user_gift \<times> gift_type) list" where
  "inventory_join db userId =
    concat (map (\<lambda>ug. case gift_types db (ug_gift_type_id ug) of
                         None \<Rightarrow> []
                       | Some gt \<Rightarrow>
                           if ug_user_id ug = userId \<and> 0 < ug_quantity ug then [(ug, gt)] else [])
              (user_gifts db))"

fun inventory_select :: "user_gift \<times> gift_type \<Rightarrow> inventory_row" where
  "inventory_select (ug, gt) =
    \<lparr>inv_quantity = ug_quantity ug, inv_gift_type_id = ug_gift_type_id ug,
     inv_name = gt_name gt, inv_emoji = gt_emoji gt, inv_description = gt_description gt,
     inv_price = gt_price gt, inv_category = gt_category gt\<rparr>"

text \<open>\<^verbatim>\<open>ORDER BY gt.category, gt.name\<close>. Texts compare byte by byte (SQLite's BINARY
  collation), which is the lexicographic order of \<open>string\<close>. The order among rows with
  equal keys is not fixed by SQL; the model sorts stably.\<close>

definition inventory :: "database \<Rightarrow> int option \<Rightarrow> error + inventory_row list" where
  "inventory db user =
    (case user of
       None \<Rightarrow> Inl NotAuthenticated
     | Some userId \<Rightarrow>
         Inr (sort_key (\<lambda>r. (inv_category r, inv_name r))
                (map inventory_select (inventory_join db userId))))"

text \<open>The inventory statement of \<^verbatim>\<open>POST /sync\<close> (lines 293 to 304), with
  \<^verbatim>\<open>ORDER BY ug.quantity DESC, gt.name\<close>. The route's update of
  \<^verbatim>\<open>users.device_id\<close> and its list of recent transactions are not modelled.\<close>

fun sync_select :: "user_gift \<times> gift_type \<Rightarrow> sync_row" where
  "sync_select (ug, gt) =
    \<lparr>sync_id = ug_gift_type_id ug, sync_name = gt_name gt, sync_emoji = gt_emoji gt,
     sync_category = gt_category gt, sync_quantity = ug_quantity ug\<rparr>"

definition sync_inventory :: "database \<Rightarrow> int \<Rightarrow> sync_row list" where
  "sync_inventory db userId =
    sort_key (\<lambda>r. (- sync_quantity r, sync_name r))
      (map sync_select (inventory_join db userId))"

subsection \<open>Redemption\<close>

text \<open>The route \<^verbatim>\<open>POST /api/partners/redeem\<close> lives in \<^verbatim>\<open>routes/partners.ts\<close>,
  which is not among the source files this theory is written from; the server's entry
  point mounts the router and lists the route. The definitions of this subsection follow the specification's section 4.3
  and section 5 instead, over the \<^verbatim>\<open>transactions\<close> table of the source.\<close>

text \<open>Modelled from the spec: the two errors of \<open>redeem\<close> (section 7); the handler in
  \<^verbatim>\<open>routes/partners.ts\<close> is missing.\<close>

datatype redeem_error = NotFound | AlreadyRedeemed

text \<open>Modelled from the spec: \<open>redeem(redemptionCodeOrTransactionId)\<close> resolves its
  argument to the transaction that has it as redemption code or as identity; the lookup
  of \<^verbatim>\<open>routes/partners.ts\<close> is missing.\<close>

definition bound_to :: "string \<Rightarrow> transaction_row \<Rightarrow> bool" where
  "bound_to c t = (t_qr_code t = c \<or> t_id t = c)"

text \<open>Modelled from the spec: a redemption changes the one transaction its argument
  resolves to, the first that satisfies \<open>P\<close>, and no other; the UPDATE of
  \<^verbatim>\<open>routes/partners.ts\<close> is missing.\<close>

fun update_first :: "('a \<Rightarrow> bool) \<Rightarrow> 'a \<Rightarrow> 'a list \<Rightarrow> 'a list" where
  "update_first P y [] = []"
| "update_first P y (x # xs) = (if P x then y # xs else x # update_first P y xs)"

text \<open>Modelled from the spec: the side effect of a successful redemption, "sets
  \<open>redeemedAt\<close> to the current time and records the redeeming party if supplied"; the
  UPDATE of \<^verbatim>\<open>routes/partners.ts\<close> is missing.\<close>

definition redeemed :: "transaction_row \<Rightarrow> int option \<Rightarrow> nat \<Rightarrow> transaction_row" where
  "redeemed t redeemingPartyId now =
    t\<lparr>t_status := ''redeemed'', t_redeemed_at := Some now,
      t_partner_id := (case redeemingPartyId of None \<Rightarrow> t_partner_id t | Some p \<Rightarrow> Some p)\<rparr>"

text \<open>Modelled from the spec: \<open>redeem\<close> of section 4.3, as the conditional update of
  section 5 ("transition only if current status is still issued"): an unknown code fails
  with \<open>NotFound\<close>, a transaction that is no longer issued with \<open>AlreadyRedeemed\<close>. The
  handler in \<^verbatim>\<open>routes/partners.ts\<close> is missing. The status issued is the table's
  \<^verbatim>\<open>'sent'\<close>.\<close>

definition redeem ::
  "database \<Rightarrow> string \<Rightarrow> int option \<Rightarrow> nat \<Rightarrow> (redeem_error + transaction_row) \<times> database" where
  "redeem db c redeemingPartyId now =
    (case find (bound_to c) (transactions db) of
       None \<Rightarrow> (Inl NotFound, db)
     | Some t \<Rightarrow>
         if t_status t = ''sent''
         then (Inr (redeemed t redeemingPartyId now),
               db\<lparr>transactions :=
                    update_first (bound_to c) (redeemed t redeemingPartyId now) (transactions db)\<rparr>)
         else (Inl AlreadyRedeemed, db))"

subsection \<open>Balances and well-formed databases\<close>

text \<open>The balance of a user for a gift type: the units over all rows of the pair.\<close>

definition balance :: "database \<Rightarrow> int \<Rightarrow> int \<Rightarrow> int" where
  "balance db userId g = sum_list (map ug_quantity (filter (owns userId g) (user_gifts db)))"

text \<open>The pair a row of \<^verbatim>\<open>user_gifts\<close> is about.\<close>

definition row_key :: "user_gift \<Rightarrow> int \<times> int" where
  "row_key r = (ug_user_id r, ug_gift_type_id r)"

text \<open>A well-formed database: one row of \<^verbatim>\<open>user_gifts\<close> per user and gift type
  (the routes look a row up before they insert one), every row's gift type in the
  catalog (a purchase credits only gift types it has found there), no gift type numbered 0 (AUTOINCREMENT starts at 1), and
  every transaction's QR text built from its id.\<close>

definition well_formed :: "database \<Rightarrow> bool" where
  "well_formed db =
    (distinct (map row_key (user_gifts db))
     \<and> set (map ug_gift_type_id (user_gifts db)) \<subseteq> dom (gift_types db)
     \<and> gift_types db 0 = None
     \<and> list_all (\<lambda>t. t_qr_code t = qrCodeData (t_id t)) (transactions db))"

text \<open>The databases the routes \<^verbatim>\<open>/purchase\<close> and \<^verbatim>\<open>/send\<close> lead to after
  start-up.\<close>

inductive reachable :: "database \<Rightarrow> bool" where
  start: "reachable initial_database"
| after_purchase:
    "reachable db \<Longrightarrow> purchase db user body_items purchaseId = (res, db') \<Longrightarrow> reachable db'"
| after_send:
    "reachable db \<Longrightarrow> send db user body_giftTypeId receiverEmail message transactionId = (res, db')
      \<Longrightarrow> reachable db'"

text \<open>The database a run of the item loop leaves, whether it ended in an error or not.\<close>

fun database_after :: "(error \<times> database) + (rat \<times> database) \<Rightarrow> database" where
  "database_after (Inl (e, db)) = db"
| "database_after (Inr (t, db)) = db"

subsection \<open>Example databases\<close>

text \<open>The database after user 1 bought three units of gift type 1 (Biertje) on the
  fresh database.\<close>

definition after_first_purchase :: database where
  "after_first_purchase =
    initial_database\<lparr>user_gifts := [\<lparr>ug_user_id = 1, ug_gift_type_id = 1, ug_quantity = 3\<rparr>],
      purchases := [\<lparr>p_id = ''7d9f3c52-8a41-4a0e-9c55-1f2e6b7a9d10'', p_user_id = 1,
        p_items = [\<lparr>giftTypeId = 1, quantity = 3\<rparr>], p_total_amount = 21 / 2\<rparr>]\<rparr>"

text \<open>The database after user 1 bought \<open>2 ^ 53\<close> units of gift type 1 on the fresh
  database.\<close>

definition after_large_purchase :: database where
  "after_large_purchase =
    initial_database\<lparr>user_gifts :=
        [\<lparr>ug_user_id = 1, ug_gift_type_id = 1, ug_quantity = 9007199254740992\<rparr>],
      purchases := [\<lparr>p_id = ''e2f4a6c8-0b1d-4e3f-a5b7-c9d1e3f5a7b9'', p_user_id = 1,
        p_items = [\<lparr>giftTypeId = 1, quantity = 9007199254740992\<rparr>],
        p_total_amount = 31525197391593472\<rparr>]\<rparr>"


text \<open>The database after user 1 bought one unit of gift type 2 (Wijntje, drinks) and
  five units of gift type 6 (Taartje, food) on the fresh database.\<close>

definition after_mixed_purchase :: database where
  "after_mixed_purchase =
    initial_database\<lparr>user_gifts :=
        [\<lparr>ug_user_id = 1, ug_gift_type_id = 2, ug_quantity = 1\<rparr>,
         \<lparr>ug_user_id = 1, ug_gift_type_id = 6, ug_quantity = 5\<rparr>],
      purchases :=
        [\<lparr>p_id = ''2c4e6a80-1b3d-4f5a-8c7e-9d0f1a2b3c4d'', p_user_id = 1,
          p_items = [\<lparr>giftTypeId = 2, quantity = 1\<rparr>, \<lparr>giftTypeId = 6, quantity = 5\<rparr>],
          p_total_amount = 93 / 4\<rparr>]\<rparr>"

text \<open>The database after user 1 then sent one unit of gift type 1.\<close>

definition after_first_send :: database where
  "after_first_send =
    after_first_purchase\<lparr>user_gifts := [\<lparr>ug_user_id = 1, ug_gift_type_id = 1, ug_quantity = 2\<rparr>],
      transactions :=
        [\<lparr>t_id = ''3f2b8c1e-9d47-4c6a-b5e0-7a1d2c3e4f50'', t_sender_id = 1,
          t_receiver_email = Some ''vriend@example.com'', t_gift_type_id = 1, t_status = ''sent'',
          t_qr_code = ''CADEAUTJE-3f2b8c1e-9d47-4c6a-b5e0-7a1d2c3e4f50'', t_message = None,
          t_redeemed_at = None, t_partner_id = None\<rparr>]\<rparr>"

section \<open>Properties\<close>

subsection \<open>Rounding\<close>

lemma round_half_even_of_int [simp]: "round_half_even (of_int m) = m"
  by (simp add: round_half_even_def)

lemma fl_0 [simp]: "fl 0 = 0"
  by (simp add: fl_def)

lemma fl_2_53:
  "fl 9007199254740992 = 9007199254740992"
  "fl (- 9007199254740992) = - 9007199254740992"
  by code_simp+

text \<open>Every integer of magnitude up to \<open>2 ^ 53\<close> is a binary64 value.\<close>

lemma fl_of_int_exact:
  assumes "\<bar>k\<bar> \<le> 9007199254740992"
  shows "fl (of_int k) = of_int k"
proof (cases "k = 0")
  case True
  then show ?thesis by simp
next
  case False
  define a where "a = \<bar>k\<bar>"
  define b where "b = bitlen a"
  from False have apos: "0 < a" by (simp add: a_def)
  then have bounds: "2 ^ nat (b - 1) \<le> a" "a < 2 ^ nat b"
    using bitlen_bounds [of a] by (simp_all add: b_def)
  from apos have b1: "1 \<le> b"
    using bitlen_eq_zero_iff [of a] bitlen_nonneg [of a] by (simp add: b_def)
  have ex: "exponent \<bar>of_int k\<bar> = b - 1"
  proof -
    have "\<bar>of_int k :: rat\<bar> = of_int a" by (simp add: a_def)
    moreover have "(1::rat) \<le> of_int a" using apos by simp
    ultimately show ?thesis by (simp add: exponent_def b_def)
  qed
  from bounds(1) assms have le: "(2::int) ^ nat (b - 1) \<le> 2 ^ 53" by (simp add: a_def)
  have "nat (b - 1) \<le> 53" by (rule power_le_imp_le_exp [OF _ le]) simp
  with b1 have b54: "b \<le> 54" by simp
  show ?thesis
  proof (cases "b = 54")
    case True
    with bounds(1) have "2 ^ 53 \<le> a" by simp
    with assms have "a = 9007199254740992" by (simp add: a_def)
    then have "k = 9007199254740992 \<or> k = - 9007199254740992" by (auto simp: a_def)
    then show ?thesis using fl_2_53 by auto
  next
    case False
    with b54 have b53: "b \<le> 53" by simp
    define j where "j = nat (53 - b)"
    have e: "max (b - 1) (- 1022) - 52 = - int j" using b1 b53 by (simp add: j_def)
    have u: "(2::rat) powi (- int j) = inverse (2 ^ j)"
      by (simp add: power_int_minus)
    have "of_int k / inverse ((2::rat) ^ j) = of_int (k * 2 ^ j)"
      by (simp add: field_simps)
    then have "fl (of_int k) = of_int (k * 2 ^ j) * inverse (2 ^ j)"
      using \<open>k \<noteq> 0\<close> by (simp add: fl_def ex e u Let_def del: of_int_mult of_int_power)
    then show ?thesis by simp
  qed
qed

lemma binary64_of_int: "\<bar>k\<bar> \<le> 9007199254740992 \<Longrightarrow> binary64 (of_int k)"
proof -
  assume k: "\<bar>k\<bar> \<le> 9007199254740992"
  then have "\<bar>of_int k :: rat\<bar> \<le> 9007199254740992"
    by (metis of_int_abs of_int_le_iff of_int_numeral)
  then have "\<bar>of_int k :: rat\<bar> < 2 ^ 1024" by simp
  with k show ?thesis by (simp add: binary64_def fl_of_int_exact)
qed

lemma fl_numeral [simp]:
  "numeral w \<le> (9007199254740992::int) \<Longrightarrow> fl (numeral w) = numeral w"
  "numeral w \<le> (9007199254740992::int) \<Longrightarrow> fl (- numeral w) = - numeral w"
  using fl_of_int_exact [of "numeral w"] fl_of_int_exact [of "- numeral w"] by simp_all

lemma fl_1 [simp]: "fl 1 = 1" "fl (- 1) = - 1"
  using fl_of_int_exact [of 1] fl_of_int_exact [of "- 1"] by simp_all

text \<open>The amounts of the examples are binary64 values; one tenth is not, and neither is
  \<open>2 ^ 53 + 1\<close>.\<close>

lemma fl_amounts [simp]:
  "fl (7 / 2) = 7 / 2" "fl (21 / 2) = 21 / 2" "fl (9 / 2) = 9 / 2" "fl (75 / 4) = 75 / 4"
  "fl (93 / 4) = 93 / 4" "fl (- (11 / 4)) = - (11 / 4)" "fl 31525197391593472 = 31525197391593472"
  by code_simp+

lemma fl_tenth: "fl (1 / 10) = 3602879701896397 / 36028797018963968"
  by code_simp

lemma fl_2_53_plus_1: "fl 9007199254740993 = 9007199254740992"
  by code_simp

lemmas start_up = initial_database_def insertSampleData_def giftTypes_def

lemmas js_arithmetic = js_number_def js_times_def js_plus_def sql_plus_real_def sql_integer_def

lemmas purchase_run = purchase_def active_gift_type_def add_to_inventory_def update_quantity_def
  owns_def js_arithmetic

subsection \<open>Inventory rows and balances\<close>


lemma owns_row_key: "owns userId g r \<longleftrightarrow> row_key r = (userId, g)"
  by (auto simp: owns_def row_key_def)

lemma filter_owns_absent:
  "(userId, g) \<notin> set (map row_key rows) \<Longrightarrow> filter (owns userId g) rows = []"
  by (induction rows) (auto simp: owns_row_key)

lemma find_owns_None:
  "find (owns userId g) rows = None \<longleftrightarrow> (userId, g) \<notin> set (map row_key rows)"
  by (induction rows) (auto simp: owns_row_key)

lemma filter_owns_found:
  "distinct (map row_key rows) \<Longrightarrow> find (owns userId g) rows = Some r
    \<Longrightarrow> filter (owns userId g) rows = [r]"
proof (induction rows)
  case Nil
  then show ?case by simp
next
  case (Cons a rows)
  show ?case
  proof (cases "owns userId g a")
    case True
    with Cons.prems have "(userId, g) \<notin> set (map row_key rows)"
      by (simp add: owns_row_key)
    then have "filter (owns userId g) rows = []" by (rule filter_owns_absent)
    with True Cons.prems show ?thesis by simp
  next
    case False
    with Cons show ?thesis by simp
  qed
qed

lemma owns_set_quantity [simp]: "owns userId g (r\<lparr>ug_quantity := q\<rparr>) = owns userId g r"
  by (simp add: owns_def)

lemma owns_unique: "owns userId g r \<Longrightarrow> owns userId' g' r \<longleftrightarrow> userId' = userId \<and> g' = g"
  by (auto simp: owns_def)

lemma filter_update_quantity:
  "filter (owns userId' g') (update_quantity f userId g rows) =
    (if userId' = userId \<and> g' = g
     then map (\<lambda>r. r\<lparr>ug_quantity := f (ug_quantity r)\<rparr>) (filter (owns userId g) rows)
     else filter (owns userId' g') rows)"
  by (induction rows) (auto simp: update_quantity_def owns_unique)

lemma row_key_update_quantity:
  "map row_key (update_quantity f userId g rows) = map row_key rows"
  by (induction rows) (auto simp: update_quantity_def row_key_def)

lemma gift_type_ids_update_quantity:
  "map ug_gift_type_id (update_quantity f userId g rows) = map ug_gift_type_id rows"
  by (induction rows) (auto simp: update_quantity_def)

lemma balance_update_quantity:
  assumes "distinct (map row_key (user_gifts db))"
    and "find (owns userId g) (user_gifts db) = Some r"
  shows "balance (db\<lparr>user_gifts := update_quantity f userId g (user_gifts db)\<rparr>) userId g
          = f (balance db userId g)"
  using filter_owns_found [OF assms]
  by (simp add: balance_def filter_update_quantity)

lemma balance_update_quantity_other:
  "(userId', g') \<noteq> (userId, g) \<Longrightarrow>
    balance (db\<lparr>user_gifts := update_quantity f userId g (user_gifts db)\<rparr>) userId' g'
      = balance db userId' g'"
  by (auto simp: balance_def filter_update_quantity)

lemma balance_add_to_inventory:
  assumes "distinct (map row_key (user_gifts db))"
    and "fl (of_int (quantity it)) = of_int (quantity it)"
    and "fl (of_int (balance db userId (giftTypeId it))) = of_int (balance db userId (giftTypeId it))"
    and "fl (of_int (balance db userId (giftTypeId it) + quantity it))
          = of_int (balance db userId (giftTypeId it) + quantity it)"
  shows "balance (add_to_inventory db userId it) userId (giftTypeId it)
          = balance db userId (giftTypeId it) + quantity it"
proof (cases "find (owns userId (giftTypeId it)) (user_gifts db)")
  case None
  then have "filter (owns userId (giftTypeId it)) (user_gifts db) = []"
    by (simp add: find_owns_None filter_owns_absent)
  with None assms(2) show ?thesis
    by (simp add: balance_def add_to_inventory_def owns_def js_number_def sql_integer_def)
next
  case (Some r)
  let ?b = "balance db userId (giftTypeId it)"
  have "sql_plus_real ?b (js_number (quantity it)) = \<lfloor>fl (of_int ?b + of_int (quantity it) :: rat)\<rfloor>"
    by (simp add: sql_plus_real_def sql_integer_def js_number_def assms(2,3))
  also have "\<dots> = \<lfloor>of_int (?b + quantity it) :: rat\<rfloor>"
    using assms(4) by simp
  finally have "sql_plus_real ?b (js_number (quantity it)) = ?b + quantity it"
    by simp
  with Some assms(1) show ?thesis
    by (simp add: add_to_inventory_def balance_update_quantity)
qed

lemma balance_add_to_inventory_other:
  assumes "(userId', g') \<noteq> (userId, giftTypeId it)"
  shows "balance (add_to_inventory db userId it) userId' g' = balance db userId' g'"
proof (cases "find (owns userId (giftTypeId it)) (user_gifts db)")
  case None
  with assms show ?thesis
    by (auto simp: balance_def add_to_inventory_def owns_def)
next
  case (Some r)
  with assms show ?thesis
    by (simp add: add_to_inventory_def balance_update_quantity_other)
qed

lemma gift_types_add_to_inventory [simp]:
  "gift_types (add_to_inventory db userId it) = gift_types db"
  by (simp add: add_to_inventory_def split: option.splits)

lemma purchases_add_to_inventory [simp]:
  "purchases (add_to_inventory db userId it) = purchases db"
  by (simp add: add_to_inventory_def split: option.splits)

lemma transactions_add_to_inventory [simp]:
  "transactions (add_to_inventory db userId it) = transactions db"
  by (simp add: add_to_inventory_def split: option.splits)

lemma well_formed_add_to_inventory:
  assumes "well_formed db" and "gift_types db (giftTypeId it) \<noteq> None"
  shows "well_formed (add_to_inventory db userId it)"
proof (cases "find (owns userId (giftTypeId it)) (user_gifts db)")
  case None
  then have "(userId, giftTypeId it) \<notin> set (map row_key (user_gifts db))"
    by (simp add: find_owns_None)
  with assms None show ?thesis
    by (auto simp: well_formed_def add_to_inventory_def row_key_def)
next
  case (Some r)
  with assms show ?thesis
    by (simp add: well_formed_def add_to_inventory_def row_key_update_quantity
          gift_type_ids_update_quantity del: set_map)
qed

lemma active_gift_type_Some:
  "active_gift_type db g = Some giftType \<longleftrightarrow> gift_types db g = Some giftType \<and> gt_active giftType"
  by (auto simp: active_gift_type_def split: option.splits)

lemma well_formed_purchase_items:
  "well_formed db \<Longrightarrow> well_formed (database_after (purchase_items db userId its acc))"
proof (induction its arbitrary: db acc)
  case Nil
  then show ?case by simp
next
  case (Cons it its)
  show ?case
  proof (cases "active_gift_type db (giftTypeId it)")
    case None
    with Cons.prems show ?thesis by simp
  next
    case (Some giftType)
    then have "gift_types db (giftTypeId it) \<noteq> None"
      by (simp add: active_gift_type_Some)
    with Cons.prems have "well_formed (add_to_inventory db userId it)"
      by (rule well_formed_add_to_inventory)
    with Some show ?thesis by (simp add: Cons.IH)
  qed
qed

lemma well_formed_purchase:
  assumes "well_formed db" and "purchase db user body_items purchaseId = (res, db')"
  shows "well_formed db'"
proof -
  have wf: "well_formed (database_after (purchase_items db userId its 0))" for userId its
    using assms(1) by (rule well_formed_purchase_items)
  have pur: "well_formed (db''\<lparr>purchases := ps\<rparr>) = well_formed db''" for db'' ps
    by (simp add: well_formed_def)
  show ?thesis
    using assms wf
    apply (simp add: purchase_def split: option.splits if_splits sum.splits prod.splits)
    apply (metis database_after.simps pur)+
    done
qed

lemma well_formed_send:
  assumes "well_formed db"
    and "send db user body_giftTypeId receiverEmail message transactionId = (res, db')"
  shows "well_formed db'"
  using assms
  by (auto simp: send_def Let_def well_formed_def row_key_update_quantity
        gift_type_ids_update_quantity new_transaction_def simp del: set_map
      split: option.splits if_splits)

lemma insertSampleData_0: "insertSampleData 0 = None"
  by (simp add: insertSampleData_def giftTypes_def)

lemma well_formed_initial_database: "well_formed initial_database"
  by (simp add: well_formed_def initial_database_def insertSampleData_0)

lemma reachable_well_formed: "reachable db \<Longrightarrow> well_formed db"
  by (induction rule: reachable.induct)
    (auto intro: well_formed_initial_database well_formed_purchase well_formed_send)

subsection \<open>The example databases\<close>

lemma well_formed_after_first_purchase: "well_formed after_first_purchase"
  by (simp add: well_formed_def after_first_purchase_def initial_database_def
      insertSampleData_def giftTypes_def row_key_def)

lemma balance_after_first_purchase: "balance after_first_purchase 1 1 = 3"
  by (simp add: balance_def after_first_purchase_def owns_def)

subsection \<open>Sending from a positive balance\<close>


lemma positive_balance_row:
  assumes "distinct (map row_key (user_gifts db))" and "balance db userId g \<noteq> 0"
  shows "\<exists>r. find (owns userId g) (user_gifts db) = Some r \<and> ug_quantity r = balance db userId g"
proof (cases "find (owns userId g) (user_gifts db)")
  case None
  then have "filter (owns userId g) (user_gifts db) = []"
    by (simp add: find_owns_None filter_owns_absent)
  with assms(2) show ?thesis by (simp add: balance_def)
next
  case (Some r)
  with assms(1) have "filter (owns userId g) (user_gifts db) = [r]"
    by (rule filter_owns_found)
  with Some show ?thesis by (simp add: balance_def)
qed





subsection \<open>Claims about purchase and send\<close>

lemma after_large_purchase_run:
  "purchase initial_database (Some 1) (Some [\<lparr>giftTypeId = 1, quantity = 9007199254740992\<rparr>])
      ''e2f4a6c8-0b1d-4e3f-a5b7-c9d1e3f5a7b9''
    = (PurchaseSuccessful ''e2f4a6c8-0b1d-4e3f-a5b7-c9d1e3f5a7b9'' 31525197391593472
         [\<lparr>giftTypeId = 1, quantity = 9007199254740992\<rparr>], after_large_purchase)"
  by (simp add: purchase_run start_up after_large_purchase_def)

lemma reachable_after_large_purchase: "reachable after_large_purchase"
  using reachable.start after_large_purchase_run by (rule reachable.after_purchase)

text \<open>
  C8, as claimed: after \<open>purchase(A, [(G, n)])\<close> succeeds, the balance of \<open>A\<close> for \<open>G\<close> has
  grown by exactly \<open>n\<close>. The quantity is added as a binary64 number, so this fails where
  the sum is not a binary64 value: user 1 holds \<open>2 ^ 53\<close> units of gift type 1, a
  purchase of one more unit succeeds, and the balance is \<open>2 ^ 53\<close> as before.
\<close>

theorem purchase_credit_rounded_counterexample:
  "fst (purchase after_large_purchase (Some 1) (Some [\<lparr>giftTypeId = 1, quantity = 1\<rparr>])
      ''4b6d8f0a-2c3e-4a5b-8c7d-9e0f1a2b3c4d'')
     = PurchaseSuccessful ''4b6d8f0a-2c3e-4a5b-8c7d-9e0f1a2b3c4d'' (7 / 2)
         [\<lparr>giftTypeId = 1, quantity = 1\<rparr>]
   \<and> balance after_large_purchase 1 1 = 9007199254740992
   \<and> balance (snd (purchase after_large_purchase (Some 1)
        (Some [\<lparr>giftTypeId = 1, quantity = 1\<rparr>]) ''4b6d8f0a-2c3e-4a5b-8c7d-9e0f1a2b3c4d'')) 1 1
     = 9007199254740992"
  by (simp add: purchase_run start_up after_large_purchase_def balance_def fl_2_53_plus_1)

text \<open>
  C8, amended: when \<open>n\<close>, the balance of \<open>A\<close> for \<open>G\<close> before and after the purchase, and
  \<open>n\<close> times the price of \<open>G\<close> are binary64 values (every integer of magnitude up to
  \<open>2 ^ 53\<close> is one), then after \<open>purchase(A, [(G, n)])\<close> succeeds the balance has grown by
  exactly \<open>n\<close> and exactly one receipt has been added to \<^verbatim>\<open>purchases\<close>, whose total is
  \<open>n\<close> times the price of \<open>G\<close>. The database is well-formed (one inventory row per user
  and gift type, as in every database the routes lead to).
\<close>

theorem purchase_credits_and_records:
  assumes "well_formed db"
    and "purchase db (Some A) (Some [\<lparr>giftTypeId = G, quantity = n\<rparr>]) purchaseId
          = (PurchaseSuccessful pid totalAmount its, db')"
    and "gift_types db G = Some giftType"
    and "binary64 (of_int n)"
    and "binary64 (of_int (balance db A G))"
    and "binary64 (of_int (balance db A G + n))"
    and "binary64 (gt_price giftType * of_int n)"
  shows "balance db' A G = balance db A G + n
    \<and> gt_active giftType
    \<and> totalAmount = of_int n * gt_price giftType
    \<and> purchases db' = purchases db @
         [\<lparr>p_id = purchaseId, p_user_id = A,
           p_items = [\<lparr>giftTypeId = G, quantity = n\<rparr>],
           p_total_amount = of_int n * gt_price giftType\<rparr>]"
proof -
  let ?it = "\<lparr>giftTypeId = G, quantity = n\<rparr>"
  from assms(1) have keys: "distinct (map row_key (user_gifts db))"
    by (simp add: well_formed_def)
  from assms(4-7) have exact: "fl (of_int n) = of_int n"
    "fl (of_int (balance db A G)) = of_int (balance db A G)"
    "fl (of_int (balance db A G + n)) = of_int (balance db A G + n)"
    "fl (gt_price giftType * of_int n) = gt_price giftType * of_int n"
    by (simp_all add: binary64_def)
  from assms(2) obtain giftType' where "active_gift_type db G = Some giftType'"
    by (auto simp: purchase_def split: option.splits)
  with assms(3) have act: "active_gift_type db G = Some giftType" and on: "gt_active giftType"
    by (simp_all add: active_gift_type_Some)
  have "js_plus 0 (js_times (gt_price giftType) (js_number n)) = gt_price giftType * of_int n"
    by (simp add: js_plus_def js_times_def js_number_def exact(1,4))
  with act have loop: "purchase_items db A [?it] 0 =
      Inr (gt_price giftType * of_int n, add_to_inventory db A ?it)"
    by simp
  with assms(2) have db': "db' = (add_to_inventory db A ?it)\<lparr>purchases := purchases db @
        [\<lparr>p_id = purchaseId, p_user_id = A, p_items = [?it],
          p_total_amount = gt_price giftType * of_int n\<rparr>]\<rparr>"
    and tot: "totalAmount = gt_price giftType * of_int n"
    by (auto simp: purchase_def split: if_splits)
  have "balance db' A G = balance (add_to_inventory db A ?it) A (giftTypeId ?it)"
    by (simp add: db' balance_def)
  also have "\<dots> = balance db A (giftTypeId ?it) + quantity ?it"
    using keys exact(1-3) by (intro balance_add_to_inventory) simp_all
  finally have "balance db' A G = balance db A G + n" by simp
  with on tot db' show ?thesis by (simp add: mult.commute)
qed

theorem purchase_credits_and_records_witness:
  "well_formed after_first_purchase
   \<and> purchase after_first_purchase (Some 1) (Some [\<lparr>giftTypeId = 1, quantity = 2\<rparr>])
        ''c0a8012e-5b7d-4f3a-8e21-6d4b9f0a7c33''
      = (PurchaseSuccessful ''c0a8012e-5b7d-4f3a-8e21-6d4b9f0a7c33'' 7 [\<lparr>giftTypeId = 1, quantity = 2\<rparr>],
         after_first_purchase\<lparr>user_gifts := [\<lparr>ug_user_id = 1, ug_gift_type_id = 1, ug_quantity = 5\<rparr>],
           purchases := purchases after_first_purchase @
             [\<lparr>p_id = ''c0a8012e-5b7d-4f3a-8e21-6d4b9f0a7c33'', p_user_id = 1,
               p_items = [\<lparr>giftTypeId = 1, quantity = 2\<rparr>], p_total_amount = 7\<rparr>]\<rparr>)
   \<and> gift_types after_first_purchase 1 = Some (hd giftTypes)
   \<and> binary64 (of_int 2) \<and> binary64 (of_int (balance after_first_purchase 1 1))
   \<and> binary64 (of_int (balance after_first_purchase 1 1 + 2))
   \<and> binary64 (gt_price (hd giftTypes) * of_int 2)
   \<and> balance after_first_purchase 1 1 = 3
   \<and> balance (after_first_purchase\<lparr>user_gifts := [\<lparr>ug_user_id = 1, ug_gift_type_id = 1, ug_quantity = 5\<rparr>],
           purchases := purchases after_first_purchase @
             [\<lparr>p_id = ''c0a8012e-5b7d-4f3a-8e21-6d4b9f0a7c33'', p_user_id = 1,
               p_items = [\<lparr>giftTypeId = 1, quantity = 2\<rparr>], p_total_amount = 7\<rparr>]\<rparr>) 1 1 = 3 + 2
   \<and> gt_price (hd giftTypes) = 7 / 2"
proof -
  have run: "purchase after_first_purchase (Some 1) (Some [\<lparr>giftTypeId = 1, quantity = 2\<rparr>])
        ''c0a8012e-5b7d-4f3a-8e21-6d4b9f0a7c33''
      = (PurchaseSuccessful ''c0a8012e-5b7d-4f3a-8e21-6d4b9f0a7c33'' 7 [\<lparr>giftTypeId = 1, quantity = 2\<rparr>],
         after_first_purchase\<lparr>user_gifts := [\<lparr>ug_user_id = 1, ug_gift_type_id = 1, ug_quantity = 5\<rparr>],
           purchases := purchases after_first_purchase @
             [\<lparr>p_id = ''c0a8012e-5b7d-4f3a-8e21-6d4b9f0a7c33'', p_user_id = 1,
               p_items = [\<lparr>giftTypeId = 1, quantity = 2\<rparr>], p_total_amount = 7\<rparr>]\<rparr>)"
    by (simp add: purchase_run after_first_purchase_def start_up)
  have g: "gift_types after_first_purchase 1 = Some (hd giftTypes)"
    by (simp add: after_first_purchase_def start_up)
  have price: "gt_price (hd giftTypes) = 7 / 2"
    by (simp add: giftTypes_def)
  have b1: "binary64 (of_int 2)" by (rule binary64_of_int) simp
  have b2: "binary64 (of_int (balance after_first_purchase 1 1))"
    by (rule binary64_of_int) (simp add: balance_after_first_purchase)
  have b3: "binary64 (of_int (balance after_first_purchase 1 1 + 2))"
    by (rule binary64_of_int) (simp add: balance_after_first_purchase)
  have b4: "binary64 (gt_price (hd giftTypes) * of_int 2)"
    by (simp add: price binary64_def)
  from purchase_credits_and_records [OF well_formed_after_first_purchase run g b1 b2 b3 b4]
    well_formed_after_first_purchase run g b1 b2 b3 b4 balance_after_first_purchase price
  show ?thesis by simp
qed





subsection \<open>What purchase and send refuse\<close>

text \<open>A purchase without items, or with an item whose gift type is missing or inactive,
  is answered with status 400; a send from a balance that is not positive is refused and
  leaves the database as it was.\<close>

lemma purchase_rejects_no_items:
  "purchase db (Some userId) None purchaseId = (Failed ItemsRequired, db)"
  "purchase db (Some userId) (Some []) purchaseId = (Failed ItemsRequired, db)"
  by (simp_all add: purchase_def)

lemma gift_types_purchase_items:
  "gift_types (database_after (purchase_items db userId its acc)) = gift_types db"
  by (induction its arbitrary: db acc) (auto split: option.splits)

lemma purchase_items_invalid:
  "\<exists>it \<in> set its. active_gift_type db (giftTypeId it) = None
    \<Longrightarrow> \<exists>g db'. purchase_items db userId its acc = Inl (InvalidGiftType g, db')
          \<and> active_gift_type db g = None"
proof (induction its arbitrary: db acc)
  case Nil
  then show ?case by simp
next
  case (Cons it its)
  show ?case
  proof (cases "active_gift_type db (giftTypeId it)")
    case None
    then show ?thesis by simp
  next
    case (Some giftType)
    have same: "active_gift_type (add_to_inventory db userId it) g = active_gift_type db g" for g
      by (simp add: active_gift_type_def)
    from Cons.prems Some
    have "\<exists>it' \<in> set its. active_gift_type (add_to_inventory db userId it) (giftTypeId it') = None"
      by (auto simp: same)
    from Cons.IH [OF this] Some show ?thesis by (simp add: same)
  qed
qed

lemma purchase_rejects_invalid_gift_type:
  assumes "\<exists>it \<in> set its. active_gift_type db (giftTypeId it) = None"
  shows "\<exists>g db'. purchase db (Some userId) (Some its) purchaseId = (Failed (InvalidGiftType g), db')"
proof -
  from assms have "its \<noteq> []" by auto
  moreover from assms obtain g db' where
    "purchase_items db userId its 0 = Inl (InvalidGiftType g, db')"
    using purchase_items_invalid by blast
  ultimately show ?thesis by (simp add: purchase_def)
qed

lemma send_rejects_used_id:
  assumes "find (\<lambda>r. owns A G r \<and> 0 < ug_quantity r) (user_gifts db) = Some r" and "G \<noteq> 0"
    and "transactionId \<in> set (map t_id (transactions db))"
  shows "send db (Some A) (Some G) receiverEmail message transactionId
          = (Failed InternalServerError, db)"
  using assms by (simp add: send_def)

lemma send_rejects_empty_balance:
  assumes "well_formed db" and "balance db A G \<le> 0"
  shows "send db (Some A) (Some G) receiverEmail message transactionId
          = (Failed (if G = 0 then GiftTypeIdRequired else GiftNotAvailable), db)"
proof -
  from assms(1) have keys: "distinct (map row_key (user_gifts db))"
    by (simp add: well_formed_def)
  have "find (\<lambda>r. owns A G r \<and> 0 < ug_quantity r) (user_gifts db) = None"
  proof (cases "find (owns A G) (user_gifts db)")
    case None
    then have "filter (owns A G) (user_gifts db) = []"
      by (simp add: find_owns_None filter_owns_absent)
    then have "\<forall>r \<in> set (user_gifts db). \<not> owns A G r"
      by (simp add: filter_empty_conv)
    then show ?thesis by (auto simp: find_None_iff)
  next
    case (Some r)
    with keys have only: "filter (owns A G) (user_gifts db) = [r]"
      by (rule filter_owns_found)
    with assms(2) have "ug_quantity r \<le> 0" by (simp add: balance_def)
    moreover have "r' = r" if "r' \<in> set (user_gifts db)" "owns A G r'" for r'
    proof -
      from that have "r' \<in> set (filter (owns A G) (user_gifts db))" by simp
      with only show ?thesis by simp
    qed
    ultimately show ?thesis by (auto simp: find_None_iff)
  qed
  then show ?thesis by (simp add: send_def)
qed

subsection \<open>Runs of purchase on the fresh database\<close>

lemma after_first_purchase_run:
  "purchase initial_database (Some 1) (Some [\<lparr>giftTypeId = 1, quantity = 3\<rparr>])
      ''7d9f3c52-8a41-4a0e-9c55-1f2e6b7a9d10''
    = (PurchaseSuccessful ''7d9f3c52-8a41-4a0e-9c55-1f2e6b7a9d10'' (21 / 2)
         [\<lparr>giftTypeId = 1, quantity = 3\<rparr>], after_first_purchase)"
  by (simp add: purchase_run start_up after_first_purchase_def)

lemma reachable_after_first_purchase: "reachable after_first_purchase"
  using reachable.start after_first_purchase_run by (rule reachable.after_purchase)

text \<open>
  C2. \<open>purchase\<close> is meant to be all-or-nothing. In the source the check of an item and
  the write to the inventory share one loop, so an invalid second item ends the request
  with status 400 after the first item has been credited: here user 1 keeps two units of
  gift type 1 from a purchase that failed, and no receipt is written.
\<close>

theorem purchase_keeps_items_before_invalid_one:
  "purchase initial_database (Some 1)
      (Some [\<lparr>giftTypeId = 1, quantity = 2\<rparr>, \<lparr>giftTypeId = 999, quantity = 1\<rparr>])
      ''5e1d7a90-3c2b-4f68-9a0d-b4c6e8f01234''
    = (Failed (InvalidGiftType 999),
       initial_database\<lparr>user_gifts :=
         [\<lparr>ug_user_id = 1, ug_gift_type_id = 1, ug_quantity = 2\<rparr>]\<rparr>)"
  by (simp add: purchase_run start_up)

text \<open>
  C6. Unit counts are meant to stay at or above 0 in every database that purchases and
  sends lead to. The purchase route never looks at the sign of \<open>quantity\<close>: a purchase
  of \<open>-2\<close> units on the fresh database succeeds and leaves a row with the quantity
  \<open>-2\<close>, in a reachable database.
\<close>

theorem purchase_of_negative_quantity:
  "purchase initial_database (Some 1) (Some [\<lparr>giftTypeId = 1, quantity = - 2\<rparr>])
      ''a3b1c2d4-e5f6-4789-8abc-def012345678''
    = (PurchaseSuccessful ''a3b1c2d4-e5f6-4789-8abc-def012345678'' (- 7)
         [\<lparr>giftTypeId = 1, quantity = - 2\<rparr>],
       initial_database\<lparr>user_gifts :=
           [\<lparr>ug_user_id = 1, ug_gift_type_id = 1, ug_quantity = - 2\<rparr>],
         purchases :=
           [\<lparr>p_id = ''a3b1c2d4-e5f6-4789-8abc-def012345678'', p_user_id = 1,
             p_items = [\<lparr>giftTypeId = 1, quantity = - 2\<rparr>], p_total_amount = - 7\<rparr>]\<rparr>)
   \<and> reachable (initial_database\<lparr>user_gifts :=
           [\<lparr>ug_user_id = 1, ug_gift_type_id = 1, ug_quantity = - 2\<rparr>],
         purchases :=
           [\<lparr>p_id = ''a3b1c2d4-e5f6-4789-8abc-def012345678'', p_user_id = 1,
             p_items = [\<lparr>giftTypeId = 1, quantity = - 2\<rparr>], p_total_amount = - 7\<rparr>]\<rparr>)"
proof -
  have run: "purchase initial_database (Some 1) (Some [\<lparr>giftTypeId = 1, quantity = - 2\<rparr>])
      ''a3b1c2d4-e5f6-4789-8abc-def012345678''
    = (PurchaseSuccessful ''a3b1c2d4-e5f6-4789-8abc-def012345678'' (- 7)
         [\<lparr>giftTypeId = 1, quantity = - 2\<rparr>],
       initial_database\<lparr>user_gifts :=
           [\<lparr>ug_user_id = 1, ug_gift_type_id = 1, ug_quantity = - 2\<rparr>],
         purchases :=
           [\<lparr>p_id = ''a3b1c2d4-e5f6-4789-8abc-def012345678'', p_user_id = 1,
             p_items = [\<lparr>giftTypeId = 1, quantity = - 2\<rparr>], p_total_amount = - 7\<rparr>]\<rparr>)"
    by (simp add: purchase_run start_up)
  from reachable.start run have "reachable (initial_database\<lparr>user_gifts :=
           [\<lparr>ug_user_id = 1, ug_gift_type_id = 1, ug_quantity = - 2\<rparr>],
         purchases :=
           [\<lparr>p_id = ''a3b1c2d4-e5f6-4789-8abc-def012345678'', p_user_id = 1,
             p_items = [\<lparr>giftTypeId = 1, quantity = - 2\<rparr>], p_total_amount = - 7\<rparr>]\<rparr>)"
    by (rule reachable.after_purchase)
  with run show ?thesis by simp
qed

text \<open>
  C7. A purchase with a quantity that is not positive is meant to fail. The route
  checks the item list and the gift types only: items with the quantities 0 and \<open>-1\<close>
  are accepted, and the total is negative.
\<close>

theorem purchase_accepts_nonpositive_quantities:
  "fst (purchase initial_database (Some 1)
      (Some [\<lparr>giftTypeId = 2, quantity = 0\<rparr>, \<lparr>giftTypeId = 3, quantity = - 1\<rparr>])
      ''0f9e8d7c-6b5a-4c3d-9e2f-1a0b9c8d7e6f'')
    = PurchaseSuccessful ''0f9e8d7c-6b5a-4c3d-9e2f-1a0b9c8d7e6f'' (- 11 / 4)
        [\<lparr>giftTypeId = 2, quantity = 0\<rparr>, \<lparr>giftTypeId = 3, quantity = - 1\<rparr>]"
  by (simp add: purchase_run start_up)

subsection \<open>The redemption code\<close>

lemmas send_run = send_def new_transaction_def update_quantity_def owns_def qrCodeData_def
  claimUrl_def

text \<open>
  C5, as claimed: the redemption code of a transaction is independent of the
  transaction's identity. It is not: the QR text is the identity behind a fixed prefix.
  The transaction that this send creates has the id \<open>3f2b8c1e-...\<close> and the QR text
  \<open>CADEAUTJE-3f2b8c1e-...\<close>.
\<close>

theorem independent_code_counterexample:
  "transactions (snd (send after_first_purchase (Some 1) (Some 1) (Some ''vriend@example.com'')
      None ''3f2b8c1e-9d47-4c6a-b5e0-7a1d2c3e4f50''))
    = [\<lparr>t_id = ''3f2b8c1e-9d47-4c6a-b5e0-7a1d2c3e4f50'', t_sender_id = 1,
        t_receiver_email = Some ''vriend@example.com'', t_gift_type_id = 1, t_status = ''sent'',
        t_qr_code = ''CADEAUTJE-3f2b8c1e-9d47-4c6a-b5e0-7a1d2c3e4f50'', t_message = None,
        t_redeemed_at = None, t_partner_id = None\<rparr>]"
  by (simp add: send_run after_first_purchase_def start_up)

text \<open>
  C5, amended: every transaction that \<open>send\<close> creates has the QR text
  \<open>CADEAUTJE-\<close> followed by its id, so each of the two determines the other: dropping
  the ten characters of the prefix from the QR text gives the id.
\<close>

theorem redemption_code_from_transaction_id:
  assumes "send db user body_giftTypeId receiverEmail message transactionId = (res, db')"
    and "t \<in> set (transactions db')" and "t \<notin> set (transactions db)"
  shows "t_id t = transactionId \<and> t_qr_code t = ''CADEAUTJE-'' @ t_id t
    \<and> drop 10 (t_qr_code t) = t_id t"
proof -
  from assms have "t = new_transaction transactionId (the user) receiverEmail
      (the body_giftTypeId) message"
    by (auto simp: send_def Let_def split: option.splits if_splits)
  then show ?thesis
    by (simp add: new_transaction_def qrCodeData_def)
qed

theorem redemption_code_from_transaction_id_witness:
  "new_transaction ''3f2b8c1e-9d47-4c6a-b5e0-7a1d2c3e4f50'' 1 (Some ''vriend@example.com'') 1 None
      \<in> set (transactions (snd (send after_first_purchase (Some 1) (Some 1)
            (Some ''vriend@example.com'') None ''3f2b8c1e-9d47-4c6a-b5e0-7a1d2c3e4f50'')))
   \<and> new_transaction ''3f2b8c1e-9d47-4c6a-b5e0-7a1d2c3e4f50'' 1 (Some ''vriend@example.com'') 1 None
      \<notin> set (transactions after_first_purchase)
   \<and> t_qr_code (new_transaction ''3f2b8c1e-9d47-4c6a-b5e0-7a1d2c3e4f50'' 1
        (Some ''vriend@example.com'') 1 None)
      = ''CADEAUTJE-3f2b8c1e-9d47-4c6a-b5e0-7a1d2c3e4f50''
   \<and> drop 10 (t_qr_code (new_transaction ''3f2b8c1e-9d47-4c6a-b5e0-7a1d2c3e4f50'' 1
        (Some ''vriend@example.com'') 1 None))
      = ''3f2b8c1e-9d47-4c6a-b5e0-7a1d2c3e4f50''"
proof -
  let ?t = "new_transaction ''3f2b8c1e-9d47-4c6a-b5e0-7a1d2c3e4f50'' 1
      (Some ''vriend@example.com'') 1 None"
  let ?run = "send after_first_purchase (Some 1) (Some 1) (Some ''vriend@example.com'') None
      ''3f2b8c1e-9d47-4c6a-b5e0-7a1d2c3e4f50''"
  have run: "?run = (fst ?run, snd ?run)" by simp
  have new: "?t \<in> set (transactions (snd ?run))"
    by (simp add: send_def update_quantity_def owns_def qrCodeData_def after_first_purchase_def start_up)
  have old: "?t \<notin> set (transactions after_first_purchase)"
    by (simp add: after_first_purchase_def initial_database_def)
  from redemption_code_from_transaction_id [OF run new old] new old
  show ?thesis by simp
qed

subsection \<open>The inventory queries\<close>

lemma after_mixed_purchase_run:
  "purchase initial_database (Some 1) (Some [\<lparr>giftTypeId = 2, quantity = 1\<rparr>, \<lparr>giftTypeId = 6, quantity = 5\<rparr>]) ''2c4e6a80-1b3d-4f5a-8c7e-9d0f1a2b3c4d''
   = (PurchaseSuccessful ''2c4e6a80-1b3d-4f5a-8c7e-9d0f1a2b3c4d'' (93/4)
        [\<lparr>giftTypeId = 2, quantity = 1\<rparr>, \<lparr>giftTypeId = 6, quantity = 5\<rparr>], after_mixed_purchase)"
  by (simp add: purchase_run start_up after_mixed_purchase_def)

lemma well_formed_after_mixed_purchase: "well_formed after_mixed_purchase"
  using well_formed_purchase [OF well_formed_initial_database after_mixed_purchase_run] .

lemmas inventory_run = inventory_def sync_inventory_def inventory_join_def

lemma set_inventory_join:
  "set (inventory_join db userId) =
    {(ug, gt). ug \<in> set (user_gifts db) \<and> gift_types db (ug_gift_type_id ug) = Some gt
       \<and> ug_user_id ug = userId \<and> 0 < ug_quantity ug}"
  by (auto simp: inventory_join_def split: option.splits if_splits)

lemma find_owns_Some_owns:
  "find (owns userId g) rows = Some r \<Longrightarrow> r \<in> set rows \<and> owns userId g r"
  by (induction rows) (auto split: if_splits)

lemma balance_row_iff:
  assumes "distinct (map row_key (user_gifts db))"
  shows "balance db userId g = q \<and> 0 < q \<longleftrightarrow>
    (\<exists>r \<in> set (user_gifts db). owns userId g r \<and> ug_quantity r = q \<and> 0 < q)"
proof
  assume l: "balance db userId g = q \<and> 0 < q"
  then have "balance db userId g \<noteq> 0" by auto
  with assms obtain r where "find (owns userId g) (user_gifts db) = Some r"
      and "ug_quantity r = balance db userId g"
    using positive_balance_row by blast
  with l show "\<exists>r \<in> set (user_gifts db). owns userId g r \<and> ug_quantity r = q \<and> 0 < q"
    using find_owns_Some_owns by fastforce
next
  assume "\<exists>r \<in> set (user_gifts db). owns userId g r \<and> ug_quantity r = q \<and> 0 < q"
  then obtain r where r: "r \<in> set (user_gifts db)" "owns userId g r" "ug_quantity r = q" "0 < q"
    by blast
  then have "(userId, g) \<in> set (map row_key (user_gifts db))"
    by (force simp: owns_row_key)
  then obtain r' where f: "find (owns userId g) (user_gifts db) = Some r'"
    using find_owns_None [of userId g "user_gifts db"] by (cases "find (owns userId g) (user_gifts db)") auto
  with assms have only: "filter (owns userId g) (user_gifts db) = [r']"
    by (rule filter_owns_found)
  from r(1,2) have "r \<in> set (filter (owns userId g) (user_gifts db))" by simp
  with only have "r = r'" by simp
  with only r(3,4) show "balance db userId g = q \<and> 0 < q"
    by (simp add: balance_def)
qed

lemma mset_map_sort_key: "mset (map f (sort_key k xs)) = mset (map f xs)"
  by simp

lemma join_row:
  assumes "(ug, gt) \<in> set (inventory_join db userId)"
  shows "ug \<in> set (user_gifts db)" and "gift_types db (ug_gift_type_id ug) = Some gt"
    and "owns userId (ug_gift_type_id ug) ug" and "0 < ug_quantity ug"
  using assms by (simp_all add: set_inventory_join owns_def)

lemma join_balance:
  assumes "distinct (map row_key (user_gifts db))"
    and "(ug, gt) \<in> set (inventory_join db userId)"
  shows "ug_quantity ug = balance db userId (ug_gift_type_id ug)"
    and "0 < balance db userId (ug_gift_type_id ug)"
proof -
  from assms(2) have "\<exists>r \<in> set (user_gifts db). owns userId (ug_gift_type_id ug) r
      \<and> ug_quantity r = ug_quantity ug \<and> 0 < ug_quantity ug"
    using join_row(1,3,4) by blast
  then have "balance db userId (ug_gift_type_id ug) = ug_quantity ug \<and> 0 < ug_quantity ug"
    using balance_row_iff [OF assms(1)] by blast
  then show "ug_quantity ug = balance db userId (ug_gift_type_id ug)"
    and "0 < balance db userId (ug_gift_type_id ug)" by simp_all
qed

lemma join_gift_type_ids:
  assumes "well_formed db"
  shows "(\<lambda>p. ug_gift_type_id (fst p)) ` set (inventory_join db userId)
    = {g. 0 < balance db userId g}"
proof (intro set_eqI iffI)
  fix g
  from assms have keys: "distinct (map row_key (user_gifts db))"
    by (simp add: well_formed_def)
  {
    assume "g \<in> (\<lambda>p. ug_gift_type_id (fst p)) ` set (inventory_join db userId)"
    then obtain ug gt where "(ug, gt) \<in> set (inventory_join db userId)" "g = ug_gift_type_id ug"
      by auto
    with keys show "g \<in> {g. 0 < balance db userId g}"
      using join_balance(2) by blast
  }
  {
    assume "g \<in> {g. 0 < balance db userId g}"
    then have "balance db userId g = balance db userId g \<and> 0 < balance db userId g" by simp
    then obtain r where r: "r \<in> set (user_gifts db)" "owns userId g r" "0 < ug_quantity r"
      using balance_row_iff [OF keys, of userId g "balance db userId g"] by auto
    from r(2) have id: "ug_gift_type_id r = g" "ug_user_id r = userId" by (simp_all add: owns_def)
    from r(1) id(1) have "g \<in> set (map ug_gift_type_id (user_gifts db))" by force
    with assms obtain gt where "gift_types db g = Some gt"
      unfolding well_formed_def by blast
    with r id have "(r, gt) \<in> set (inventory_join db userId)"
      by (simp add: set_inventory_join)
    with id(1) show "g \<in> (\<lambda>p. ug_gift_type_id (fst p)) ` set (inventory_join db userId)"
      by force
  }
qed

lemma distinct_join_rows:
  assumes "distinct (map row_key rows)"
  shows "distinct (map (\<lambda>p. ug_gift_type_id (fst p))
      (concat (map (\<lambda>ug. case gts (ug_gift_type_id ug) of
                         None \<Rightarrow> []
                       | Some gt \<Rightarrow>
                           if ug_user_id ug = userId \<and> 0 < ug_quantity ug then [(ug, gt)] else [])
              rows)))"
  using assms
proof (induction rows)
  case Nil
  then show ?case by simp
next
  case (Cons a rows)
  let ?f = "\<lambda>ug. case gts (ug_gift_type_id ug) of
                         None \<Rightarrow> []
                       | Some gt \<Rightarrow>
                           if ug_user_id ug = userId \<and> 0 < ug_quantity ug then [(ug, gt)] else []"
  have rest: "ug_user_id (fst p) = userId \<and> fst p \<in> set rows"
    if "p \<in> set (concat (map ?f rows))" for p
    using that by (auto split: option.splits if_splits)
  have "ug_gift_type_id a \<noteq> ug_gift_type_id (fst p)"
    if "ug_user_id a = userId" "p \<in> set (concat (map ?f rows))" for p
  proof
    assume "ug_gift_type_id a = ug_gift_type_id (fst p)"
    with that rest [OF that(2)] have "row_key a = row_key (fst p)" "fst p \<in> set rows"
      by (simp_all add: row_key_def)
    with Cons.prems show False by force
  qed
  with Cons show ?case
    by (auto split: option.splits)
qed

lemma distinct_join:
  "well_formed db \<Longrightarrow> distinct (map (\<lambda>p. ug_gift_type_id (fst p)) (inventory_join db userId))"
  unfolding inventory_join_def by (rule distinct_join_rows) (simp add: well_formed_def)

lemma distinct_map_sort_key:
  "distinct (map f (sort_key k xs)) = distinct (map f xs)"
  by (rule mset_eq_imp_distinct_iff) (rule mset_map_sort_key)

lemma inv_gift_type_id_select [simp]:
  "inv_gift_type_id (inventory_select p) = ug_gift_type_id (fst p)"
  by (cases p) simp

lemma sync_id_select [simp]: "sync_id (sync_select p) = ug_gift_type_id (fst p)"
  by (cases p) simp

text \<open>
  C9, as claimed: the inventory view and the device sync receive the entries in the same
  order, by category and name. They do not: for user 1 holding one Wijntje (drinks) and
  five Taartjes (food), the inventory view lists gift type 2 before 6 and the sync lists
  6 before 2.
\<close>

theorem sync_order_counterexample:
  "inventory after_mixed_purchase (Some 1) =
     Inr [\<lparr>inv_quantity = 1, inv_gift_type_id = 2, inv_name = ''Wijntje'',
           inv_emoji = [CHR 0xF0, CHR 0x9F, CHR 0x8D, CHR 0xB7],
           inv_description = Some ''Een glas wijn bij restaurants'',
           inv_price = 9 / 2, inv_category = ''drinks''\<rparr>,
          \<lparr>inv_quantity = 5, inv_gift_type_id = 6, inv_name = ''Taartje'',
           inv_emoji = [CHR 0xF0, CHR 0x9F, CHR 0x8D, CHR 0xB0],
           inv_description = Some ''Een stuk taart bij bakkerij'',
           inv_price = 15 / 4, inv_category = ''food''\<rparr>]
   \<and> map sync_id (sync_inventory after_mixed_purchase 1) = [6, 2]"
  by (simp add: inventory_run after_mixed_purchase_def start_up)

text \<open>
  C9, amended: in a well-formed database the inventory view returns one entry for each
  gift type of which the account has a strictly positive balance and no other entry,
  each with that balance as quantity and with the name, emoji, description, price and
  category of its gift type, ordered by category and then name; the device sync returns
  one entry for each of the same gift types, with the same quantity, name, emoji and
  category, ordered by quantity, largest first, and then name.
\<close>

theorem inventory_and_sync_orders:
  assumes "well_formed db"
  shows "\<exists>rows. inventory db (Some userId) = Inr rows
    \<and> sorted (map (\<lambda>r. (inv_category r, inv_name r)) rows)
    \<and> distinct (map inv_gift_type_id rows)
    \<and> set (map inv_gift_type_id rows) = {g. 0 < balance db userId g}
    \<and> (\<forall>r \<in> set rows. inv_quantity r = balance db userId (inv_gift_type_id r)
          \<and> (\<exists>gt :: gift_type. gift_types db (inv_gift_type_id r) = Some gt
                \<and> inv_name r = gt_name gt \<and> inv_emoji r = gt_emoji gt
                \<and> inv_description r = gt_description gt \<and> inv_price r = gt_price gt
                \<and> inv_category r = gt_category gt))
    \<and> sorted (map (\<lambda>r. (- sync_quantity r, sync_name r)) (sync_inventory db userId))
    \<and> distinct (map sync_id (sync_inventory db userId))
    \<and> set (map sync_id (sync_inventory db userId)) = {g. 0 < balance db userId g}
    \<and> (\<forall>r \<in> set (sync_inventory db userId). sync_quantity r = balance db userId (sync_id r)
          \<and> (\<exists>gt :: gift_type. gift_types db (sync_id r) = Some gt
                \<and> sync_name r = gt_name gt \<and> sync_emoji r = gt_emoji gt
                \<and> sync_category r = gt_category gt))"
proof -
  let ?join = "inventory_join db userId"
  let ?rows = "sort_key (\<lambda>r. (inv_category r, inv_name r)) (map inventory_select ?join)"
  from assms have keys: "distinct (map row_key (user_gifts db))"
    by (simp add: well_formed_def)
  have inv: "inventory db (Some userId) = Inr ?rows"
    by (simp add: inventory_def)
  have s1: "sorted (map (\<lambda>r. (inv_category r, inv_name r)) ?rows)"
    by (rule sorted_sort_key)
  have s2: "sorted (map (\<lambda>r. (- sync_quantity r, sync_name r)) (sync_inventory db userId))"
    unfolding sync_inventory_def by (rule sorted_sort_key)
  have d1: "distinct (map inv_gift_type_id ?rows)"
    using distinct_join [OF assms, of userId] by (simp add: distinct_map_sort_key comp_def)
  have d2: "distinct (map sync_id (sync_inventory db userId))"
    using distinct_join [OF assms, of userId]
    by (simp add: sync_inventory_def distinct_map_sort_key comp_def)
  have i1: "set (map inv_gift_type_id ?rows) = {g. 0 < balance db userId g}"
    using join_gift_type_ids [OF assms, of userId] by (simp add: image_image)
  have i2: "set (map sync_id (sync_inventory db userId)) = {g. 0 < balance db userId g}"
    using join_gift_type_ids [OF assms, of userId] by (simp add: sync_inventory_def image_image)
  have r1: "inv_quantity r = balance db userId (inv_gift_type_id r)
      \<and> (\<exists>gt :: gift_type. gift_types db (inv_gift_type_id r) = Some gt
            \<and> inv_name r = gt_name gt \<and> inv_emoji r = gt_emoji gt
            \<and> inv_description r = gt_description gt \<and> inv_price r = gt_price gt
            \<and> inv_category r = gt_category gt)" if "r \<in> set ?rows" for r
  proof -
    from that obtain ug gt where p: "(ug, gt) \<in> set ?join" and r: "r = inventory_select (ug, gt)"
      by auto
    from keys p have "ug_quantity ug = balance db userId (ug_gift_type_id ug)"
      by (rule join_balance(1))
    moreover from p have "gift_types db (ug_gift_type_id ug) = Some gt"
      by (rule join_row(2))
    ultimately show ?thesis by (simp add: r)
  qed
  have r2: "sync_quantity r = balance db userId (sync_id r)
      \<and> (\<exists>gt :: gift_type. gift_types db (sync_id r) = Some gt
            \<and> sync_name r = gt_name gt \<and> sync_emoji r = gt_emoji gt
            \<and> sync_category r = gt_category gt)" if "r \<in> set (sync_inventory db userId)" for r
  proof -
    from that obtain ug gt where p: "(ug, gt) \<in> set ?join" and r: "r = sync_select (ug, gt)"
      by (auto simp: sync_inventory_def)
    from keys p have "ug_quantity ug = balance db userId (ug_gift_type_id ug)"
      by (rule join_balance(1))
    moreover from p have "gift_types db (ug_gift_type_id ug) = Some gt"
      by (rule join_row(2))
    ultimately show ?thesis by (simp add: r)
  qed
  from inv s1 d1 i1 r1 s2 d2 i2 r2 show ?thesis by blast
qed

theorem inventory_and_sync_orders_witness:
  "well_formed after_mixed_purchase
   \<and> (\<exists>rows. inventory after_mixed_purchase (Some 1) = Inr rows
    \<and> sorted (map (\<lambda>r. (inv_category r, inv_name r)) rows)
    \<and> distinct (map inv_gift_type_id rows)
    \<and> set (map inv_gift_type_id rows) = {g. 0 < balance after_mixed_purchase 1 g}
    \<and> (\<forall>r \<in> set rows. inv_quantity r = balance after_mixed_purchase 1 (inv_gift_type_id r)
          \<and> (\<exists>gt :: gift_type. gift_types after_mixed_purchase (inv_gift_type_id r) = Some gt
                \<and> inv_name r = gt_name gt \<and> inv_emoji r = gt_emoji gt
                \<and> inv_description r = gt_description gt \<and> inv_price r = gt_price gt
                \<and> inv_category r = gt_category gt))
    \<and> sorted (map (\<lambda>r. (- sync_quantity r, sync_name r)) (sync_inventory after_mixed_purchase 1))
    \<and> distinct (map sync_id (sync_inventory after_mixed_purchase 1))
    \<and> set (map sync_id (sync_inventory after_mixed_purchase 1))
        = {g. 0 < balance after_mixed_purchase 1 g}
    \<and> (\<forall>r \<in> set (sync_inventory after_mixed_purchase 1).
          sync_quantity r = balance after_mixed_purchase 1 (sync_id r)
          \<and> (\<exists>gt :: gift_type. gift_types after_mixed_purchase (sync_id r) = Some gt
                \<and> sync_name r = gt_name gt \<and> sync_emoji r = gt_emoji gt
                \<and> sync_category r = gt_category gt)))"
  using well_formed_after_mixed_purchase
    inventory_and_sync_orders [OF well_formed_after_mixed_purchase, of 1]
  by (rule conjI)

subsection \<open>Redeeming a code\<close>

lemma after_first_send_run:
  "snd (send after_first_purchase (Some 1) (Some 1) (Some ''vriend@example.com'') None
      ''3f2b8c1e-9d47-4c6a-b5e0-7a1d2c3e4f50'') = after_first_send"
  by (simp add: send_run after_first_purchase_def after_first_send_def start_up)

lemma bound_to_redeemed [simp]: "bound_to c (redeemed t p now) = bound_to c t"
  by (simp add: bound_to_def redeemed_def)

lemma find_Some_holds: "find P xs = Some x \<Longrightarrow> P x"
  by (induction xs) (auto split: if_splits)

lemma find_update_first:
  "find P xs = Some x \<Longrightarrow> P y \<Longrightarrow> find P (update_first P y xs) = Some y"
  by (induction xs) (auto split: if_splits)

lemma list_all2_update_first:
  assumes "find P xs = Some x" and "R x y" and "\<And>z. R z z"
  shows "list_all2 R xs (update_first P y xs)"
  using assms(1,2)
proof (induction xs)
  case Nil
  then show ?case by simp
next
  case (Cons a xs)
  then show ?case
    by (auto split: if_splits simp: assms(3) list_all2_refl)
qed

lemma redeem_steps:
  "list_all2 (\<lambda>t t'. t' = t \<or> (t_status t = ''sent'' \<and> t_status t' = ''redeemed''))
     (transactions db) (transactions (snd (redeem db c party now)))"
proof (cases "find (bound_to c) (transactions db)")
  case None
  then show ?thesis by (simp add: redeem_def list_all2_refl)
next
  case (Some t)
  show ?thesis
  proof (cases "t_status t = ''sent''")
    case True
    have "list_all2 (\<lambda>t t'. t' = t \<or> (t_status t = ''sent'' \<and> t_status t' = ''redeemed''))
        (transactions db) (update_first (bound_to c) (redeemed t party now) (transactions db))"
      using Some by (rule list_all2_update_first) (simp_all add: True redeemed_def)
    with Some True show ?thesis by (simp add: redeem_def)
  next
    case False
    with Some show ?thesis by (simp add: redeem_def list_all2_refl)
  qed
qed

text \<open>
  C3. For a transaction in the status issued (\<^verbatim>\<open>'sent'\<close>), \<open>redeem(code)\<close> succeeds and
  sets \<open>redeemedAt\<close>; a second \<open>redeem(code)\<close> fails with \<open>AlreadyRedeemed\<close> and leaves
  the database, and with it \<open>redeemedAt\<close>, as the first call left it. A code bound to
  no transaction fails with \<open>NotFound\<close>. Whatever the database and the code, a call of
  \<open>redeem\<close> leaves every transaction as it was or takes it from issued to redeemed: that
  is the only transition, and a redeemed transaction never changes again.
\<close>

theorem redeem_once:
  fixes db :: database and t :: transaction_row
  assumes known: "find (bound_to code) (transactions db) = Some t"
    and issued: "t_status t = ''sent''"
    and unknown: "find (bound_to other) (transactions db) = None"
  shows "\<exists>t' db'. redeem db code party now = (Inr t', db')
      \<and> t_status t' = ''redeemed'' \<and> t_redeemed_at t' = Some now
      \<and> find (bound_to code) (transactions db') = Some t'
      \<and> redeem db' code party' now' = (Inl AlreadyRedeemed, db')
      \<and> redeem db other party now = (Inl NotFound, db)
      \<and> list_all2 (\<lambda>t t'. t' = t \<or> (t_status t = ''sent'' \<and> t_status t' = ''redeemed''))
           (transactions any_db) (transactions (snd (redeem any_db any_code any_party any_time)))"
proof -
  let ?t' = "redeemed t party now"
  let ?db' = "db\<lparr>transactions := update_first (bound_to code) ?t' (transactions db)\<rparr>"
  from known have "bound_to code t" by (rule find_Some_holds)
  then have b: "bound_to code ?t'" by simp
  have first: "redeem db code party now = (Inr ?t', ?db')"
    using known issued by (simp add: redeem_def)
  have st: "t_status ?t' = ''redeemed''" "t_redeemed_at ?t' = Some now"
    by (simp_all add: redeemed_def)
  have again: "find (bound_to code) (transactions ?db') = Some ?t'"
    using find_update_first [OF known b] by simp
  then have second: "redeem ?db' code party' now' = (Inl AlreadyRedeemed, ?db')"
    using st(1) by (simp add: redeem_def)
  have nf: "redeem db other party now = (Inl NotFound, db)"
    using unknown by (simp add: redeem_def)
  from first st again second nf redeem_steps [of any_db any_code any_party any_time]
  show ?thesis by blast
qed

theorem redeem_once_witness:
  "find (bound_to ''CADEAUTJE-3f2b8c1e-9d47-4c6a-b5e0-7a1d2c3e4f50'') (transactions after_first_send)
     = Some (hd (transactions after_first_send))
   \<and> t_status (hd (transactions after_first_send)) = ''sent''
   \<and> find (bound_to ''CADEAUTJE-00000000-0000-4000-8000-000000000000'')
        (transactions after_first_send) = None
   \<and> (\<exists>t' db'. redeem after_first_send ''CADEAUTJE-3f2b8c1e-9d47-4c6a-b5e0-7a1d2c3e4f50'' (Some 7) 1000
          = (Inr t', db')
      \<and> t_status t' = ''redeemed'' \<and> t_redeemed_at t' = Some 1000
      \<and> find (bound_to ''CADEAUTJE-3f2b8c1e-9d47-4c6a-b5e0-7a1d2c3e4f50'') (transactions db') = Some t'
      \<and> redeem db' ''CADEAUTJE-3f2b8c1e-9d47-4c6a-b5e0-7a1d2c3e4f50'' (Some 8) 2000
          = (Inl AlreadyRedeemed, db')
      \<and> redeem after_first_send ''CADEAUTJE-00000000-0000-4000-8000-000000000000'' (Some 7) 1000
          = (Inl NotFound, after_first_send)
      \<and> list_all2 (\<lambda>t t'. t' = t \<or> (t_status t = ''sent'' \<and> t_status t' = ''redeemed''))
           (transactions after_first_send)
           (transactions (snd (redeem after_first_send
              ''CADEAUTJE-3f2b8c1e-9d47-4c6a-b5e0-7a1d2c3e4f50'' (Some 7) 1000))))"
proof -
  have known: "find (bound_to ''CADEAUTJE-3f2b8c1e-9d47-4c6a-b5e0-7a1d2c3e4f50'')
      (transactions after_first_send) = Some (hd (transactions after_first_send))"
    by (simp add: bound_to_def after_first_send_def)
  have issued: "t_status (hd (transactions after_first_send)) = ''sent''"
    by (simp add: after_first_send_def)
  have unknown: "find (bound_to ''CADEAUTJE-00000000-0000-4000-8000-000000000000'')
      (transactions after_first_send) = None"
    by (simp add: bound_to_def after_first_send_def)
  from known issued unknown
    redeem_once [OF known issued unknown, of "Some 7" 1000 "Some 8" 2000 after_first_send
      "''CADEAUTJE-3f2b8c1e-9d47-4c6a-b5e0-7a1d2c3e4f50''" "Some 7" 1000]
  show ?thesis by (intro conjI)
qed

end
